theory Spec2Isabelle
  imports Main "HOL-Library.Char_ord" "HOL-Library.List_Lexorder"
begin

section \<open>Python values, errors and byte strings\<close>

text \<open>
  The plugin of \<^verbatim>\<open>src/repoze/who/plugins/friendlyform.py\<close> is Python 2 code: it imports
  \<^verbatim>\<open>urlparse\<close> and \<^verbatim>\<open>urllib.urlencode\<close>. A Python 2 \<^verbatim>\<open>str\<close> is a byte string, which
  is what \<^typ>\<open>string\<close> is. Exceptions are values of \<open>py_error\<close>; a computation that
  may raise returns \<open>py_error + 'a\<close> with \<open>Inl\<close> for the exception.
\<close>

datatype py_error = KeyError | TypeError | ValueError | AssertionError | AttributeError

text \<open>
  The Python objects that reach the query-string code: \<^verbatim>\<open>None\<close>, a \<^verbatim>\<open>str\<close>, an
  \<^verbatim>\<open>int\<close> (unbounded: Python 2 promotes to \<^verbatim>\<open>long\<close>) and the lists of strings that
  \<^verbatim>\<open>parse_qs\<close> builds.
\<close>

datatype pyval = PNone | PStr string | PInt int | PList "string list"

fun truthy :: "pyval \<Rightarrow> bool" where
  "truthy PNone = False"
| "truthy (PStr s) = (s \<noteq> [])"
| "truthy (PInt n) = (n \<noteq> 0)"
| "truthy (PList xs) = (xs \<noteq> [])"

definition ascii_uppercase :: string where
  "ascii_uppercase = ''ABCDEFGHIJKLMNOPQRSTUVWXYZ''"

definition ascii_lowercase :: string where
  "ascii_lowercase = ''abcdefghijklmnopqrstuvwxyz''"

definition digits :: string where
  "digits = ''0123456789''"

text \<open>\<^verbatim>\<open>str.lower()\<close> on a byte string: only the letters A-Z change.\<close>

definition lower_char :: "char \<Rightarrow> char" where
  "lower_char c = (case map_of (zip ascii_uppercase ascii_lowercase) c of Some d \<Rightarrow> d | None \<Rightarrow> c)"

definition lower :: "string \<Rightarrow> string" where
  "lower s = map lower_char s"

text \<open>\<^verbatim>\<open>s.find(c)\<close> for a one-character \<open>c\<close>: the first index, or \<open>None\<close> for Python's -1.\<close>

fun str_find :: "char \<Rightarrow> string \<Rightarrow> nat option" where
  "str_find c [] = None"
| "str_find c (x # xs) = (if x = c then Some 0 else map_option Suc (str_find c xs))"

text \<open>\<^verbatim>\<open>s.find(c, start)\<close> and \<^verbatim>\<open>s.rfind(c)\<close>.\<close>

definition str_find_from :: "char \<Rightarrow> string \<Rightarrow> nat \<Rightarrow> nat option" where
  "str_find_from c s start = map_option (\<lambda>i. i + start) (str_find c (drop start s))"

definition str_rfind :: "char \<Rightarrow> string \<Rightarrow> nat option" where
  "str_rfind c s = map_option (\<lambda>i. length s - 1 - i) (str_find c (rev s))"

text \<open>\<^verbatim>\<open>s.split(c, 1)\<close>, used only under the guard \<^verbatim>\<open>c in s\<close>; without the
  separator Python returns the one-element list \<^verbatim>\<open>[s]\<close>, here \<open>(s, None)\<close>.\<close>

definition split1 :: "char \<Rightarrow> string \<Rightarrow> string \<times> string option" where
  "split1 c s = (case str_find c s of
                   None \<Rightarrow> (s, None)
                 | Some i \<Rightarrow> (take i s, Some (drop (Suc i) s)))"

text \<open>\<^verbatim>\<open>s.split(c)\<close>: every piece between separators, empty pieces kept.\<close>

fun split_char :: "char \<Rightarrow> string \<Rightarrow> string list" where
  "split_char c [] = [[]]"
| "split_char c (x # xs) =
     (if x = c then [] # split_char c xs
      else (case split_char c xs of
              [] \<Rightarrow> [[x]]
            | y # ys \<Rightarrow> (x # y) # ys))"

text \<open>\<^verbatim>\<open>sep.join(pieces)\<close>.\<close>

fun join :: "string \<Rightarrow> string list \<Rightarrow> string" where
  "join sep [] = []"
| "join sep [x] = x"
| "join sep (x # y # ys) = x @ sep @ join sep (y # ys)"

text \<open>\<^verbatim>\<open>s.replace(a, b)\<close> for one-character \<open>a\<close> and \<open>b\<close>.\<close>

definition replace_char :: "char \<Rightarrow> char \<Rightarrow> string \<Rightarrow> string" where
  "replace_char a b s = map (\<lambda>c. if c = a then b else c) s"

definition startswith :: "string \<Rightarrow> string \<Rightarrow> bool" where
  "startswith s p = (take (length p) s = p)"

text \<open>The test \<^verbatim>\<open>if v:\<close> on a value that is \<^verbatim>\<open>None\<close> or a string: the string when it is
  not empty.\<close>

definition if_truthy :: "string option \<Rightarrow> string option" where
  "if_truthy v = (case v of None \<Rightarrow> None | Some s \<Rightarrow> if s = [] then None else Some s)"

subsection \<open>\<^verbatim>\<open>str(n)\<close> and \<^verbatim>\<open>int(s)\<close>\<close>

definition digit_char :: "nat \<Rightarrow> char" where
  "digit_char d = digits ! d"

fun str_nat :: "nat \<Rightarrow> string" where
  "str_nat n = (if n < 10 then [digit_char n] else str_nat (n div 10) @ [digit_char (n mod 10)])"

definition str_int :: "int \<Rightarrow> string" where
  "str_int n = (if n < 0 then CHR ''-'' # str_nat (nat (- n)) else str_nat (nat n))"

text \<open>
  \<^verbatim>\<open>int(s)\<close> in base 10 on a byte string: surrounding whitespace is dropped, one sign is
  allowed, and what remains must be one or more decimal digits; anything else raises
  ValueError.
\<close>

definition whitespace :: string where
  "whitespace = [CHR '' '', CHR 0x09, CHR 0x0A, CHR 0x0B, CHR 0x0C, CHR 0x0D]"

definition strip :: "string \<Rightarrow> string" where
  "strip s = rev (dropWhile (\<lambda>c. c \<in> set whitespace) (rev (dropWhile (\<lambda>c. c \<in> set whitespace) s)))"

definition digit_val :: "char \<Rightarrow> nat" where
  "digit_val c = (case str_find c digits of Some d \<Rightarrow> d | None \<Rightarrow> 0)"

definition nat_of_digits :: "string \<Rightarrow> nat" where
  "nat_of_digits ds = foldl (\<lambda>acc c. 10 * acc + digit_val c) 0 ds"

definition int_of_str :: "string \<Rightarrow> py_error + int" where
  "int_of_str s =
     (let t = strip s;
          (neg, ds) = (case t of
                         [] \<Rightarrow> (False, t)
                       | c # r \<Rightarrow> if c = CHR ''-'' then (True, r)
                                  else if c = CHR ''+'' then (False, r)
                                  else (False, t))
      in if ds \<noteq> [] \<and> list_all (\<lambda>c. c \<in> set digits) ds
         then Inr (if neg then - int (nat_of_digits ds) else int (nat_of_digits ds))
         else Inl ValueError)"

text \<open>\<^verbatim>\<open>int(v)\<close>: TypeError for \<^verbatim>\<open>None\<close> and for a list.\<close>

fun py_int :: "pyval \<Rightarrow> py_error + int" where
  "py_int PNone = Inl TypeError"
| "py_int (PStr s) = int_of_str s"
| "py_int (PInt n) = Inr n"
| "py_int (PList xs) = Inl TypeError"

section \<open>The standard library: \<^verbatim>\<open>urllib\<close> and \<^verbatim>\<open>urlparse\<close>\<close>

text \<open>
  The plugin calls \<^verbatim>\<open>urlparse\<close>, \<^verbatim>\<open>urlunparse\<close>, \<^verbatim>\<open>parse_qs\<close> and
  \<^verbatim>\<open>urlencode(..., doseq=True)\<close>. They are modelled after \<^verbatim>\<open>Lib/urlparse.py\<close> and
  \<^verbatim>\<open>Lib/urllib.py\<close> of CPython 2.7.18, function by function and under their names.
\<close>

subsection \<open>\<^verbatim>\<open>urllib.quote\<close>, \<^verbatim>\<open>quote_plus\<close>, \<^verbatim>\<open>unquote\<close>\<close>

definition always_safe :: string where
  "always_safe = ascii_uppercase @ ascii_lowercase @ digits @ ''_.-''"

definition hexdig_upper :: string where
  "hexdig_upper = ''0123456789ABCDEF''"

text \<open>\<^verbatim>\<open>'%{:02X}'.format(i)\<close> for the byte \<open>c\<close>.\<close>

definition percent_hex :: "char \<Rightarrow> string" where
  "percent_hex c = [CHR ''%'', hexdig_upper ! (of_char c div 16), hexdig_upper ! (of_char c mod 16)]"

text \<open>The entry of \<^verbatim>\<open>_safe_map\<close>, updated with \<open>safe\<close>, for the byte \<open>c\<close>.\<close>

definition quoter :: "string \<Rightarrow> char \<Rightarrow> string" where
  "quoter safe c =
     (if c \<in> set safe \<or> ((of_char c :: nat) < 128 \<and> c \<in> set always_safe) then [c]
      else percent_hex c)"

definition quote :: "string \<Rightarrow> string \<Rightarrow> string" where
  "quote s safe = concat (map (quoter safe) s)"

definition quote_plus :: "string \<Rightarrow> string" where
  "quote_plus s =
     (if CHR '' '' \<in> set s then replace_char (CHR '' '') (CHR ''+'') (quote s '' '')
      else quote s [])"

text \<open>The value of a hexadecimal digit, of either case (\<^verbatim>\<open>_hexdig\<close>).\<close>

definition hexval :: "char \<Rightarrow> nat option" where
  "hexval c = map_of (zip ''0123456789ABCDEFabcdef''
                 [0, 1, 2, 3, 4, 5, 6, 7, 8, 9, 10, 11, 12, 13, 14, 15, 10, 11, 12, 13, 14, 15]) c"

text \<open>
  \<^verbatim>\<open>unquote\<close> splits at \<^verbatim>\<open>%\<close> and decodes a piece that starts with two hexadecimal
  digits; any other piece keeps its \<^verbatim>\<open>%\<close>. A hexadecimal digit is never \<^verbatim>\<open>%\<close>, so
  this is the scan from the left below.
\<close>

fun unquote :: "string \<Rightarrow> string" where
  "unquote [] = []"
| "unquote [c] = [c]"
| "unquote [c, d] = [c, d]"
| "unquote (c # a # b # s) =
     (if c = CHR ''%'' then
        (case (hexval a, hexval b) of
           (Some h, Some l) \<Rightarrow> char_of (16 * h + l) # unquote s
         | _ \<Rightarrow> c # unquote (a # b # s))
      else c # unquote (a # b # s))"

subsection \<open>\<^verbatim>\<open>urlparse.parse_qsl\<close> and \<^verbatim>\<open>parse_qs\<close>\<close>

text \<open>
  \<^verbatim>\<open>parse_qsl(qs, keep_blank_values)\<close> with \<^verbatim>\<open>strict_parsing\<close> off: the fields are
  separated by \<^verbatim>\<open>&\<close> and \<^verbatim>\<open>;\<close>, an empty field is skipped, a field without \<^verbatim>\<open>=\<close> or
  with an empty value is kept only when blank values are.
\<close>

definition parse_field :: "bool \<Rightarrow> string \<Rightarrow> (string \<times> string) list" where
  "parse_field keep_blank_values name_value =
     (if name_value = [] then []
      else (case split1 (CHR ''='') name_value of
              (n, None) \<Rightarrow>
                if keep_blank_values
                then [(unquote (replace_char (CHR ''+'') (CHR '' '') n), [])]
                else []
            | (n, Some v) \<Rightarrow>
                if v \<noteq> [] \<or> keep_blank_values
                then [(unquote (replace_char (CHR ''+'') (CHR '' '') n),
                       unquote (replace_char (CHR ''+'') (CHR '' '') v))]
                else []))"

definition parse_qsl :: "string \<Rightarrow> bool \<Rightarrow> (string \<times> string) list" where
  "parse_qsl qs keep_blank_values =
     concat (map (parse_field keep_blank_values)
               (concat (map (split_char (CHR '';'')) (split_char (CHR ''&'') qs))))"

text \<open>
  A Python \<^verbatim>\<open>dict\<close> with string keys is an association list with distinct keys.
  \<^verbatim>\<open>d[k] = v\<close> is \<open>dict_setitem\<close>.
\<close>

fun dict_setitem :: "string \<Rightarrow> 'v \<Rightarrow> (string \<times> 'v) list \<Rightarrow> (string \<times> 'v) list" where
  "dict_setitem k v [] = [(k, v)]"
| "dict_setitem k v ((k', v') # d) =
     (if k' = k then (k, v) # d else (k', v') # dict_setitem k v d)"

text \<open>
  Python 2 leaves the order in which a \<^verbatim>\<open>dict\<close> is iterated unspecified. The model
  iterates in ascending key order: an order fixed by the keys alone, and the one that
  every URL expected in \<^verbatim>\<open>src/tests.py\<close> shows (\<^verbatim>\<open>__logins\<close> before \<^verbatim>\<open>came_from\<close>).
\<close>

definition dict_items :: "(string \<times> 'v) list \<Rightarrow> (string \<times> 'v) list" where
  "dict_items d = sort_key fst d"

definition parse_qs_step :: "(string \<times> string list) list \<Rightarrow> string \<times> string \<Rightarrow> (string \<times> string list) list" where
  "parse_qs_step dict nv =
     (case map_of dict (fst nv) of
        Some vs \<Rightarrow> dict_setitem (fst nv) (vs @ [snd nv]) dict
      | None \<Rightarrow> dict_setitem (fst nv) [snd nv] dict)"

definition parse_qs :: "string \<Rightarrow> (string \<times> string list) list" where
  "parse_qs qs = foldl parse_qs_step [] (parse_qsl qs False)"

subsection \<open>\<^verbatim>\<open>urllib.urlencode(query, doseq=True)\<close>\<close>

text \<open>
  One \<^verbatim>\<open>k=v\<close> per string value; a value with a length yields one \<^verbatim>\<open>k=elt\<close> per
  element; any other value (\<^verbatim>\<open>len(v)\<close> raises TypeError) is encoded through \<^verbatim>\<open>str\<close>,
  which is the decimal numeral of an integer and \<^verbatim>\<open>'None'\<close> for \<^verbatim>\<open>None\<close>.
\<close>

fun urlencode_item :: "string \<times> pyval \<Rightarrow> string list" where
  "urlencode_item (k, PStr v) = [quote_plus k @ ''='' @ quote_plus v]"
| "urlencode_item (k, PList elts) = map (\<lambda>elt. quote_plus k @ ''='' @ quote_plus elt) elts"
| "urlencode_item (k, PInt n) = [quote_plus k @ ''='' @ quote_plus (str_int n)]"
| "urlencode_item (k, PNone) = [quote_plus k @ ''='' @ quote_plus ''None'']"

definition urlencode :: "(string \<times> pyval) list \<Rightarrow> string" where
  "urlencode query = join ''&'' (concat (map urlencode_item query))"

subsection \<open>\<^verbatim>\<open>urlparse.urlsplit\<close>, \<^verbatim>\<open>urlparse\<close>, \<^verbatim>\<open>urlunsplit\<close>, \<^verbatim>\<open>urlunparse\<close>\<close>

definition uses_netloc :: "string list" where
  "uses_netloc = [''ftp'', ''http'', ''gopher'', ''nntp'', ''telnet'',
                  ''imap'', ''wais'', ''file'', ''mms'', ''https'', ''shttp'',
                  ''snews'', ''prospero'', ''rtsp'', ''rtspu'', ''rsync'', '''',
                  ''svn'', ''svn+ssh'', ''sftp'', ''nfs'', ''git'', ''git+ssh'']"

definition uses_params :: "string list" where
  "uses_params = [''ftp'', ''hdl'', ''prospero'', ''http'', ''imap'',
                  ''https'', ''shttp'', ''rtsp'', ''rtspu'', ''sip'', ''sips'',
                  ''mms'', '''', ''sftp'', ''tel'']"

definition scheme_chars :: string where
  "scheme_chars = ascii_lowercase @ ascii_uppercase @ digits @ ''+-.''"

record split_result =
  scheme :: string
  netloc :: string
  path :: string
  query :: string
  fragment :: string

record parse_result = split_result +
  params :: string

text \<open>\<^verbatim>\<open>_splitnetloc(url, start)\<close>: the network location ends at the first of \<^verbatim>\<open>/?#\<close>.\<close>

definition splitnetloc :: "string \<Rightarrow> nat \<Rightarrow> string \<times> string" where
  "splitnetloc url start =
     (let delim = foldl (\<lambda>delim c. case str_find_from c url start of
                                      Some wdelim \<Rightarrow> min delim wdelim
                                    | None \<Rightarrow> delim)
                    (length url) ''/?#''
      in (drop start (take delim url), drop delim url))"

text \<open>
  The part of \<^verbatim>\<open>urlsplit\<close> after the scheme is known; the source has it twice, once
  on the fast path for \<^verbatim>\<open>http\<close> and once for every other URL.
\<close>

definition urlsplit_rest :: "string \<Rightarrow> string \<Rightarrow> py_error + split_result" where
  "urlsplit_rest sch url0 =
     (let (nl, url1) = (if take 2 url0 = ''//'' then splitnetloc url0 2 else ([], url0))
      in if take 2 url0 = ''//'' \<and>
            ((CHR ''['' \<in> set nl \<and> CHR '']'' \<notin> set nl) \<or>
             (CHR '']'' \<in> set nl \<and> CHR ''['' \<notin> set nl))
         then Inl ValueError
         else
           (let (url2, frag) = (case split1 (CHR ''#'') url1 of
                                  (u, Some f) \<Rightarrow> (u, f)
                                | (u, None) \<Rightarrow> (u, []));
                (url3, qu) = (case split1 (CHR ''?'') url2 of
                                (u, Some q) \<Rightarrow> (u, q)
                              | (u, None) \<Rightarrow> (u, []))
            in Inr \<lparr>scheme = sch, netloc = nl, path = url3, query = qu, fragment = frag\<rparr>))"

definition urlsplit :: "string \<Rightarrow> py_error + split_result" where
  "urlsplit url =
     (case str_find (CHR '':'') url of
        None \<Rightarrow> urlsplit_rest [] url
      | Some i \<Rightarrow>
          if 0 < i then
            if take i url = ''http'' then urlsplit_rest (lower (take i url)) (drop (Suc i) url)
            else if list_all (\<lambda>c. c \<in> set scheme_chars) (take i url) then
              (let rest = drop (Suc i) url
               in if rest = [] \<or> list_ex (\<lambda>c. c \<notin> set digits) rest
                  then urlsplit_rest (lower (take i url)) rest
                  else urlsplit_rest [] url)
            else urlsplit_rest [] url
          else urlsplit_rest [] url)"

text \<open>\<^verbatim>\<open>_splitparams\<close>: the parameters follow the first \<^verbatim>\<open>;\<close> of the last path segment.
  Its caller guarantees a \<^verbatim>\<open>;\<close> in the URL.\<close>

definition splitparams :: "string \<Rightarrow> string \<times> string" where
  "splitparams url =
     (case (if CHR ''/'' \<in> set url
            then (case str_rfind (CHR ''/'') url of
                    Some j \<Rightarrow> str_find_from (CHR '';'') url j
                  | None \<Rightarrow> None)
            else str_find (CHR '';'') url) of
        None \<Rightarrow> (url, [])
      | Some i \<Rightarrow> (take i url, drop (Suc i) url))"

definition urlparse :: "string \<Rightarrow> py_error + parse_result" where
  "urlparse url =
     (case urlsplit url of
        Inl e \<Rightarrow> Inl e
      | Inr r \<Rightarrow>
          (let (u, p) = (if scheme r \<in> set uses_params \<and> CHR '';'' \<in> set (path r)
                         then splitparams (path r) else (path r, []))
           in Inr \<lparr>scheme = scheme r, netloc = netloc r, path = u, query = query r,
                    fragment = fragment r, params = p\<rparr>))"

definition urlunsplit :: "split_result \<Rightarrow> string" where
  "urlunsplit d =
     (let url0 = path d;
          url1 = (if netloc d \<noteq> [] \<or>
                     (scheme d \<noteq> [] \<and> scheme d \<in> set uses_netloc \<and> take 2 url0 \<noteq> ''//'')
                  then ''//'' @ netloc d @
                       (if url0 \<noteq> [] \<and> take 1 url0 \<noteq> ''/'' then ''/'' @ url0 else url0)
                  else url0);
          url2 = (if scheme d \<noteq> [] then scheme d @ '':'' @ url1 else url1);
          url3 = (if query d \<noteq> [] then url2 @ ''?'' @ query d else url2)
      in if fragment d \<noteq> [] then url3 @ ''#'' @ fragment d else url3)"

definition urlunparse :: "parse_result \<Rightarrow> string" where
  "urlunparse d =
     urlunsplit \<lparr>scheme = scheme d, netloc = netloc d,
                 path = (if params d \<noteq> [] then path d @ '';'' @ params d else path d),
                 query = query d, fragment = fragment d\<rparr>"

section \<open>The collaborators: \<^verbatim>\<open>paste\<close> and the wrapped authenticator\<close>

subsection \<open>The WSGI environment\<close>

text \<open>
  \<^verbatim>\<open>environ\<close> is a Python dictionary; the record has one optional field for each key
  that the two hooks read or write. A missing key is \<open>None\<close>: \<^verbatim>\<open>environ[k]\<close> then
  raises KeyError and \<^verbatim>\<open>environ.get(k, d)\<close> gives \<open>d\<close>.
\<close>

type_synonym header_list = "(string \<times> string) list"

datatype wsgi_app = Redirection (headers: header_list) | Other_app (headers: header_list)

record environ =
  PATH_INFO :: "string option"
  SCRIPT_NAME :: "string option"
  QUERY_STRING :: "string option"
  came_from :: "string option"
  repoze_who_logins :: "pyval option"
  repoze_who_application :: "wsgi_app option"

subsection \<open>\<^verbatim>\<open>paste.response.header_value\<close> and \<^verbatim>\<open>paste.httpexceptions.HTTPFound\<close>\<close>

definition header_value :: "header_list \<Rightarrow> string \<Rightarrow> string option" where
  "header_value hs name =
     (let result = map snd (filter (\<lambda>(h, v). lower h = lower name) hs)
      in if result \<noteq> [] then Some (join '','' result) else None)"

text \<open>
  \<^verbatim>\<open>HTTPFound(detail, headers=headers)\<close>: when the headers carry no location, the detail
  is the location and \<^verbatim>\<open>('location', detail)\<close> is appended; an empty location fails the
  constructor's assertion.
\<close>

definition HTTPFound :: "string \<Rightarrow> header_list option \<Rightarrow> py_error + wsgi_app" where
  "HTTPFound detail headers_arg =
     (let hs = (case headers_arg of None \<Rightarrow> [] | Some h \<Rightarrow> h)
      in (case header_value hs ''location'' of
            Some loc \<Rightarrow> if loc \<noteq> [] then Inr (Redirection hs)
                        else if detail \<noteq> [] then Inr (Redirection (hs @ [(''location'', detail)]))
                        else Inl AssertionError
          | None \<Rightarrow> if detail \<noteq> [] then Inr (Redirection (hs @ [(''location'', detail)]))
                    else Inl AssertionError))"

text \<open>\<^verbatim>\<open>app.location()\<close>: the first header named location, in any case; KeyError without
  one. Only a redirection has the method.\<close>

fun location :: "wsgi_app \<Rightarrow> py_error + string" where
  "location (Redirection hs) =
     (case find (\<lambda>(name, v). lower name = ''location'') hs of
        Some (name, v) \<Rightarrow> Inr v
      | None \<Rightarrow> Inl KeyError)"
| "location (Other_app hs) = Inl AttributeError"

subsection \<open>\<^verbatim>\<open>paste.request.parse_dict_querystring\<close> and its \<^verbatim>\<open>MultiDict\<close>\<close>

text \<open>
  A \<^verbatim>\<open>MultiDict\<close> is the list of pairs in the order of the query string.
  \<^verbatim>\<open>parse_dict_querystring\<close> parses \<^verbatim>\<open>QUERY_STRING\<close> with blank values kept. paste also
  caches the parsed list in the environment, keyed by the string it was parsed from; the
  model parses again, which gives the list a valid cache holds.
\<close>

type_synonym multidict = "(string \<times> string) list"

definition parse_dict_querystring :: "environ \<Rightarrow> multidict" where
  "parse_dict_querystring env =
     (let source = (case QUERY_STRING env of None \<Rightarrow> [] | Some s \<Rightarrow> s)
      in if source = [] then [] else parse_qsl source True)"

text \<open>\<^verbatim>\<open>key in d\<close>, \<^verbatim>\<open>d.get(key)\<close> (the first value), \<^verbatim>\<open>del d[key]\<close> (every pair of that key)
  and \<^verbatim>\<open>d.items()\<close> as \<^verbatim>\<open>urlencode\<close> reads them.\<close>

definition multidict_contains :: "multidict \<Rightarrow> string \<Rightarrow> bool" where
  "multidict_contains d k = (k \<in> set (map fst d))"

definition multidict_get :: "multidict \<Rightarrow> string \<Rightarrow> pyval" where
  "multidict_get d k = (case map_of d k of None \<Rightarrow> PNone | Some v \<Rightarrow> PStr v)"

definition multidict_delitem :: "multidict \<Rightarrow> string \<Rightarrow> multidict" where
  "multidict_delitem d k = filter (\<lambda>(k', v). k' \<noteq> k) d"

definition multidict_items :: "multidict \<Rightarrow> (string \<times> pyval) list" where
  "multidict_items d = map (\<lambda>(k, v). (k, PStr v)) d"

section \<open>\<^verbatim>\<open>FriendlyFormPlugin\<close>\<close>

record plugin =
  login_form_url :: string
  login_handler_path :: string
  logout_handler_path :: string
  rememberer_name :: string
  login_counter_name :: string
  post_login_url :: "string option"
  post_logout_url :: "string option"

text \<open>
  \<^verbatim>\<open>__init__(*args, **kwargs)\<close>. The keyword arguments are a map from names to values,
  a value being \<^verbatim>\<open>None\<close> or a string; \<^verbatim>\<open>kwargs.pop(name, None)\<close> is \<open>None\<close> both for
  a missing keyword and for one passed as \<^verbatim>\<open>None\<close>. The four positional arguments go
  to the constructor of \<^verbatim>\<open>RedirectingFormPlugin\<close>, which stores them.
\<close>

definition kwargs_pop :: "(string \<rightharpoonup> string option) \<Rightarrow> string \<Rightarrow> string option" where
  "kwargs_pop kwargs name = (case kwargs name of None \<Rightarrow> None | Some v \<Rightarrow> v)"

definition init :: "string \<Rightarrow> string \<Rightarrow> string \<Rightarrow> string \<Rightarrow> (string \<rightharpoonup> string option) \<Rightarrow> plugin" where
  "init form_url login_path logout_path rememberer kwargs =
     (let counter = kwargs_pop kwargs ''login_counter_name'';
          post_login = kwargs_pop kwargs ''post_login_url'';
          post_logout = kwargs_pop kwargs ''post_logout_url'';
          counter' = (case counter of
                        None \<Rightarrow> ''__logins''
                      | Some s \<Rightarrow> if s = [] then ''__logins'' else s)
      in \<lparr>login_form_url = form_url, login_handler_path = login_path,
          logout_handler_path = logout_path, rememberer_name = rememberer,
          login_counter_name = counter', post_login_url = post_login,
          post_logout_url = post_logout\<rparr>)"

subsection \<open>The helpers\<close>

definition get_full_path :: "string \<Rightarrow> environ \<Rightarrow> string" where
  "get_full_path p env =
     (if startswith p ''/'' then (case SCRIPT_NAME env of None \<Rightarrow> [] | Some s \<Rightarrow> s) @ p
      else p)"

text \<open>
  \<^verbatim>\<open>_get_logins(environ, force_typecast)\<close>. Only ValueError and TypeError are caught by the
  \<^verbatim>\<open>except\<close> clause; any other exception of \<^verbatim>\<open>int\<close> would propagate.
\<close>

definition get_logins :: "plugin \<Rightarrow> environ \<Rightarrow> bool \<Rightarrow> py_error + pyval" where
  "get_logins self env force_typecast =
     (let variables = parse_dict_querystring env;
          failed_logins = multidict_get variables (login_counter_name self)
      in if force_typecast
         then (case py_int failed_logins of
                 Inr n \<Rightarrow> Inr (PInt n)
               | Inl e \<Rightarrow> if e = ValueError \<or> e = TypeError then Inr (PInt 0) else Inl e)
         else Inr failed_logins)"

definition insert_qs_variable :: "string \<Rightarrow> string \<Rightarrow> pyval \<Rightarrow> py_error + string" where
  "insert_qs_variable url var_name var_value =
     (case urlparse url of
        Inl e \<Rightarrow> Inl e
      | Inr url_parts \<Rightarrow>
          (let query_parts = map (\<lambda>(k, vs). (k, PList vs)) (parse_qs (query url_parts));
               query_parts' = dict_setitem var_name var_value query_parts
           in Inr (urlunparse (url_parts\<lparr>query := urlencode (dict_items query_parts')\<rparr>))))"

definition set_logins_in_url :: "plugin \<Rightarrow> string \<Rightarrow> pyval \<Rightarrow> py_error + string" where
  "set_logins_in_url self url logins = insert_qs_variable url (login_counter_name self) logins"

subsection \<open>The identity hook\<close>

text \<open>
  \<^verbatim>\<open>identify(self, environ)\<close>. The hook of the wrapped authenticator runs first; it is
  the parameter \<open>super_identify\<close>, which returns the identity and the environment as it
  left it. The result pairs the returned identity (or the exception raised) with the
  environment as the hook left it.
\<close>

definition login_destination :: "plugin \<Rightarrow> environ \<Rightarrow> string \<Rightarrow> py_error + string" where
  "login_destination self env destination =
     (case if_truthy (post_login_url self) of
        None \<Rightarrow> Inr destination
      | Some post_login \<Rightarrow>
          (let destination' = get_full_path post_login env;
               query_parts = parse_dict_querystring env
           in if multidict_contains query_parts ''came_from''
              then insert_qs_variable destination' ''came_from''
                     (multidict_get query_parts ''came_from'')
              else Inr destination'))"

definition identify ::
  "(environ \<Rightarrow> 'i \<times> environ) \<Rightarrow> plugin \<Rightarrow> environ \<Rightarrow> (py_error + 'i) \<times> environ" where
  "identify super_identify self environ =
     (let (identity, env) = super_identify environ
      in case PATH_INFO env of
           None \<Rightarrow> (Inl KeyError, env)
         | Some path_info \<Rightarrow>
             if path_info = login_handler_path self then
               (case repoze_who_application env of
                  None \<Rightarrow> (Inl KeyError, env)
                | Some app \<Rightarrow>
                    (case location app of
                       Inl e \<Rightarrow> (Inl e, env)
                     | Inr destination0 \<Rightarrow>
                         (case login_destination self env destination0 of
                            Inl e \<Rightarrow> (Inl e, env)
                          | Inr destination \<Rightarrow>
                              (case get_logins self env True of
                                 Inl e \<Rightarrow> (Inl e, env)
                               | Inr failed_logins \<Rightarrow>
                                   (case set_logins_in_url self destination failed_logins of
                                      Inl e \<Rightarrow> (Inl e, env)
                                    | Inr new_dest \<Rightarrow>
                                        (case HTTPFound new_dest None of
                                           Inl e \<Rightarrow> (Inl e, env)
                                         | Inr found \<Rightarrow>
                                             (Inr identity,
                                              env\<lparr>repoze_who_application := Some found\<rparr>)))))))
             else
               (case (if path_info = login_form_url self then Inr True
                      else map_sum id truthy (get_logins self env False)) of
                  Inl e \<Rightarrow> (Inl e, env)
                | Inr False \<Rightarrow> (Inr identity, env)
                | Inr True \<Rightarrow>
                    (case get_logins self env True of
                       Inl e \<Rightarrow> (Inl e, env)
                     | Inr logins \<Rightarrow>
                         (let env1 = env\<lparr>repoze_who_logins := Some logins\<rparr>;
                              qs = parse_dict_querystring env1
                          in if multidict_contains qs (login_counter_name self)
                             then (Inr identity,
                                   env1\<lparr>QUERY_STRING :=
                                     Some (urlencode (multidict_items
                                       (multidict_delitem qs (login_counter_name self))))\<rparr>)
                             else (Inr identity, env1)))))"

subsection \<open>The challenge hook\<close>

text \<open>
  \<^verbatim>\<open>challenge(self, environ, status, app_headers, forget_headers)\<close>. The wrapped
  authenticator's hook is the parameter \<open>super_challenge\<close>. The hook returns either the
  very object the wrapped authenticator built (\<open>Base_challenge\<close>) or a redirection it
  builds itself with \<^verbatim>\<open>HTTPFound\<close> (\<open>New_redirect\<close>). \<^verbatim>\<open>environ['repoze.who.logins'] += 1\<close>
  raises TypeError when the stored value is not a number.
\<close>

datatype challenge_result = Base_challenge wsgi_app | New_redirect wsgi_app

definition logout_destination :: "plugin \<Rightarrow> environ \<Rightarrow> py_error + string" where
  "logout_destination self env =
     (let came = came_from env;
          script_name = (case SCRIPT_NAME env of None \<Rightarrow> [] | Some s \<Rightarrow> s)
      in case if_truthy (post_logout_url self) of
           Some post_logout \<Rightarrow>
             (let destination = get_full_path post_logout env
              in case if_truthy came of
                   Some c \<Rightarrow> insert_qs_variable destination ''came_from'' (PStr c)
                 | None \<Rightarrow> Inr destination)
         | None \<Rightarrow>
             Inr (case if_truthy came of
                    Some c \<Rightarrow> c
                  | None \<Rightarrow> if script_name \<noteq> [] then script_name else ''/''))"

definition challenge ::
  "(environ \<Rightarrow> string \<Rightarrow> header_list \<Rightarrow> header_list \<Rightarrow> wsgi_app \<times> environ) \<Rightarrow>
   plugin \<Rightarrow> environ \<Rightarrow> string \<Rightarrow> header_list \<Rightarrow> header_list \<Rightarrow>
   (py_error + challenge_result) \<times> environ" where
  "challenge super_challenge self environ status app_headers forget_headers =
     (let (challenger, env) = super_challenge environ status app_headers forget_headers;
          hs = filter (\<lambda>(h, v). lower h \<noteq> ''location'') (headers challenger)
      in case PATH_INFO env of
           None \<Rightarrow> (Inl KeyError, env)
         | Some path_info \<Rightarrow>
             if path_info = logout_handler_path self then
               (case logout_destination self env of
                  Inl e \<Rightarrow> (Inl e, env)
                | Inr destination \<Rightarrow>
                    (case HTTPFound destination (Some hs) of
                       Inl e \<Rightarrow> (Inl e, env)
                     | Inr found \<Rightarrow> (Inr (New_redirect found), env)))
             else
               (case repoze_who_logins env of
                  Some logins \<Rightarrow>
                    (case logins of
                       PInt n \<Rightarrow>
                         (let env1 = env\<lparr>repoze_who_logins := Some (PInt (n + 1))\<rparr>
                          in case location challenger of
                               Inl e \<Rightarrow> (Inl e, env1)
                             | Inr old_destination \<Rightarrow>
                                 (case set_logins_in_url self old_destination (PInt (n + 1)) of
                                    Inl e \<Rightarrow> (Inl e, env1)
                                  | Inr destination \<Rightarrow>
                                      (case HTTPFound destination (Some hs) of
                                         Inl e \<Rightarrow> (Inl e, env1)
                                       | Inr found \<Rightarrow> (Inr (New_redirect found), env1))))
                     | _ \<Rightarrow> (Inl TypeError, env))
                | None \<Rightarrow> (Inr (Base_challenge challenger), env)))"

section \<open>The specification's reading of the logout destination\<close>



section \<open>The fixtures of \<^verbatim>\<open>src/tests.py\<close>\<close>

text \<open>
  \<^verbatim>\<open>_make_one\<close> and \<^verbatim>\<open>_make_environ\<close> of the test suite, and two stand-ins for the
  wrapped authenticator: an identity hook that chooses a destination and a challenge hook
  that redirects to a given location, followed by the forget headers.
\<close>

definition make_one :: "string option \<Rightarrow> string option \<Rightarrow> string option \<Rightarrow> plugin" where
  "make_one counter_name post_login post_logout =
     init ''/login'' ''/login_handler'' ''/logout_handler'' ''whatever''
       [''login_counter_name'' \<mapsto> counter_name, ''post_login_url'' \<mapsto> post_login,
        ''post_logout_url'' \<mapsto> post_logout]"

definition make_environ :: "string \<Rightarrow> string \<Rightarrow> string \<Rightarrow> environ" where
  "make_environ path_info qs script_name =
     \<lparr>PATH_INFO = Some path_info, SCRIPT_NAME = Some script_name, QUERY_STRING = Some qs,
      came_from = None, repoze_who_logins = None, repoze_who_application = None\<rparr>"

definition choose_destination :: "string \<Rightarrow> environ \<Rightarrow> unit \<times> environ" where
  "choose_destination d env =
     ((), env\<lparr>repoze_who_application := Some (Redirection [(''location'', d)])\<rparr>)"

definition keep_environ :: "environ \<Rightarrow> unit \<times> environ" where
  "keep_environ env = ((), env)"

definition challenge_at ::
  "string \<Rightarrow> environ \<Rightarrow> string \<Rightarrow> header_list \<Rightarrow> header_list \<Rightarrow> wsgi_app \<times> environ" where
  "challenge_at loc env status app_headers forget_headers =
     (Redirection ((''Location'', loc) # forget_headers), env)"

section \<open>Notions used in the proofs\<close>

text \<open>
  \<open>qp_char\<close> is what \<^verbatim>\<open>quote_plus\<close> writes for one byte and \<open>decode\<close> is how
  \<^verbatim>\<open>parse_qsl\<close> reads a name or a value. \<open>item_values\<close> are the strings that
  \<^verbatim>\<open>urlencode\<close> writes for one value and \<open>decoded_item\<close> the pairs that \<^verbatim>\<open>parse_qsl\<close>
  reads back from them. \<open>group_values\<close> collects the values of one key and
  \<open>some_values\<close> is the dictionary entry made of them. \<open>as_lists\<close> is the result of
  \<^verbatim>\<open>parse_qs\<close> as a dictionary of Python values, and \<open>new_query\<close> is the query string
  that \<^verbatim>\<open>_insert_qs_variable\<close> writes (its lines 226 to 228). \<open>insert_twice\<close> applies the
  helper a second time to its own result, and \<open>reads_back url q\<close> says that \<^verbatim>\<open>urlparse\<close>
  reads \<open>url\<close> with the query string \<open>q\<close> and that \<^verbatim>\<open>urlunparse\<close> of what it read is
  \<open>url\<close> again.
\<close>

definition qp_char :: "char \<Rightarrow> string" where
  "qp_char c = (if c = CHR '' '' then ''+'' else quoter [] c)"

definition decode :: "string \<Rightarrow> string" where
  "decode s = unquote (replace_char (CHR ''+'') (CHR '' '') s)"

definition item_values :: "pyval \<Rightarrow> string list" where
  "item_values v = (case v of PNone \<Rightarrow> [''None''] | PStr s \<Rightarrow> [s] | PInt n \<Rightarrow> [str_int n]
                    | PList xs \<Rightarrow> xs)"

definition decoded_item :: "bool \<Rightarrow> string \<times> pyval \<Rightarrow> (string \<times> string) list" where
  "decoded_item kb kv = map (Pair (fst kv)) (filter (\<lambda>x. x \<noteq> [] \<or> kb) (item_values (snd kv)))"

definition group_values :: "string \<Rightarrow> (string \<times> string) list \<Rightarrow> string list" where
  "group_values k pairs = map snd (filter (\<lambda>p. fst p = k) pairs)"

definition some_values :: "string list \<Rightarrow> string list option" where
  "some_values vs = (if vs = [] then None else Some vs)"

definition as_lists :: "(string \<times> string list) list \<Rightarrow> (string \<times> pyval) list" where
  "as_lists d = map (\<lambda>(k, vs). (k, PList vs)) d"

definition new_query :: "string \<Rightarrow> string \<Rightarrow> pyval \<Rightarrow> string" where
  "new_query q k v = urlencode (dict_items (dict_setitem k v (as_lists (parse_qs q))))"

definition insert_twice :: "string \<Rightarrow> string \<Rightarrow> pyval \<Rightarrow> py_error + string" where
  "insert_twice url k v =
     (case insert_qs_variable url k v of
        Inl e \<Rightarrow> Inl e
      | Inr url' \<Rightarrow> insert_qs_variable url' k v)"


subsection \<open>The shape of a URL\<close>

text \<open>
  The notions below describe how \<^verbatim>\<open>urlsplit\<close> cuts a URL and how \<^verbatim>\<open>urlunsplit\<close> writes
  one. \<open>before c s\<close> and \<open>after c s\<close> are the parts of \<open>s\<close> on either side of the first
  \<open>c\<close>; \<open>nd\<close> holds of the characters that do not end a network location; \<open>bad_netloc\<close>
  is the bracket test of \<^verbatim>\<open>urlsplit\<close>; \<open>split_scheme url\<close> is the scheme that \<^verbatim>\<open>urlsplit\<close>
  finds and the rest of the URL; \<open>psplit\<close> and \<open>pjoin\<close> are the handling of parameters by
  \<^verbatim>\<open>urlparse\<close> and \<^verbatim>\<open>urlunparse\<close>, and \<open>lastseg\<close> is the last segment of a path;
  \<open>slashed\<close>, \<open>uses_authority\<close>, \<open>body\<close> and \<open>ftail\<close> are the pieces that \<^verbatim>\<open>urlunsplit\<close>
  writes.

  \<open>port_like url\<close> says that the URL starts with scheme characters other than \<^verbatim>\<open>http\<close>,
  followed by a colon and by digits only: \<^verbatim>\<open>urlsplit\<close> takes the digits for a port number
  and finds no scheme. \<open>no_scheme_prefix x\<close> says that no scheme can be read at the start
  of \<open>x\<close>. \<open>stable_parts d\<close> collects what the parts of a URL must satisfy for
  \<^verbatim>\<open>urlsplit\<close> to read the URL written from them with the same parts.
\<close>

definition before :: "char \<Rightarrow> string \<Rightarrow> string" where
  "before c s = takeWhile (\<lambda>x. x \<noteq> c) s"



definition bad_netloc :: "string \<Rightarrow> bool" where
  "bad_netloc nl = ((CHR ''['' \<in> set nl \<and> CHR '']'' \<notin> set nl) \<or>
                    (CHR '']'' \<in> set nl \<and> CHR ''['' \<notin> set nl))"


definition port_like :: "string \<Rightarrow> bool" where
  "port_like url =
     (case str_find (CHR '':'') url of
        None \<Rightarrow> False
      | Some i \<Rightarrow>
          0 < i \<and> take i url \<noteq> ''http'' \<and>
          list_all (\<lambda>c. c \<in> set scheme_chars) (take i url) \<and>
          drop (Suc i) url \<noteq> [] \<and> \<not> list_ex (\<lambda>c. c \<notin> set digits) (drop (Suc i) url))"











section \<open>Properties of the helpers\<close>

lemma lower_location [simp]: "lower ''location'' = ''location''"
  by code_simp




lemma join_nonempty: "x \<in> set fs \<Longrightarrow> x \<noteq> [] \<Longrightarrow> join sep fs \<noteq> []"
  by (induction sep fs rule: join.induct) auto

lemma dict_setitem_mem: "(k, v) \<in> set (dict_setitem k v d)"
  by (induction d) auto

lemma urlencode_nonempty:
  assumes "(k, v) \<in> set items" "\<forall>xs. v \<noteq> PList xs"
  shows "urlencode items \<noteq> []"
proof -
  obtain x where x: "x \<in> set (urlencode_item (k, v))" "x \<noteq> []"
    using assms(2) by (cases v) auto
  with assms(1) have "x \<in> set (concat (map urlencode_item items))" by auto
  with x(2) show ?thesis unfolding urlencode_def using join_nonempty by blast
qed










lemma py_int_errors: "py_int v = Inl e \<Longrightarrow> e = ValueError \<or> e = TypeError"
  by (cases v) (auto simp: int_of_str_def Let_def split: prod.splits if_splits)

lemma get_logins_total: "\<exists>n. get_logins self env True = Inr (PInt n)"
  by (auto simp: get_logins_def Let_def split: sum.splits dest: py_int_errors)

lemma get_logins_zero:
  assumes "multidict_get (parse_dict_querystring env) (login_counter_name self) = PNone \<or>
           (\<exists>s. multidict_get (parse_dict_querystring env) (login_counter_name self) = PStr s \<and>
                (\<forall>n. int_of_str s \<noteq> Inr n))"
  shows "get_logins self env True = Inr (PInt 0)"
  using assms
  by (auto simp: get_logins_def Let_def split: sum.splits dest: py_int_errors)

lemma parse_dict_querystring_logins [simp]:
  "parse_dict_querystring (env\<lparr>repoze_who_logins := x\<rparr>) = parse_dict_querystring env"
  by (simp add: parse_dict_querystring_def)

lemma get_logins_raw:
  "get_logins self env False =
     Inr (multidict_get (parse_dict_querystring env) (login_counter_name self))"
  by (simp add: get_logins_def)

lemma identify_form_branch:
  assumes "super_identify environ = (identity, env)"
      and "PATH_INFO env = Some path_info"
      and "path_info \<noteq> login_handler_path self"
      and "path_info = login_form_url self \<or>
           truthy (multidict_get (parse_dict_querystring env) (login_counter_name self))"
      and "get_logins self env True = Inr logins"
  shows "identify super_identify self environ =
     (Inr identity,
      if multidict_contains (parse_dict_querystring env) (login_counter_name self)
      then env\<lparr>repoze_who_logins := Some logins,
               QUERY_STRING := Some (urlencode (multidict_items
                  (multidict_delitem (parse_dict_querystring env) (login_counter_name self))))\<rparr>
      else env\<lparr>repoze_who_logins := Some logins\<rparr>)"
  using assms
  by (auto simp: identify_def Let_def get_logins_raw)

lemma HTTPFound_no_headers: "d \<noteq> [] \<Longrightarrow> HTTPFound d None = Inr (Redirection [(''location'', d)])"
  by (simp add: HTTPFound_def header_value_def)

lemma identify_login_branch:
  assumes "super_identify environ = (identity, env)"
      and "PATH_INFO env = Some (login_handler_path self)"
      and "repoze_who_application env = Some app"
      and "location app = Inr destination0"
      and "login_destination self env destination0 = Inr destination"
      and "get_logins self env True = Inr failed_logins"
      and "set_logins_in_url self destination failed_logins = Inr new_dest"
      and "new_dest \<noteq> []"
  shows "identify super_identify self environ =
     (Inr identity, env\<lparr>repoze_who_application := Some (Redirection [(''location'', new_dest)])\<rparr>)"
  using assms by (simp add: identify_def HTTPFound_no_headers)

lemma multidict_get_absent:
  "\<not> multidict_contains d k \<Longrightarrow> multidict_get d k = PNone"
  by (simp add: multidict_contains_def multidict_get_def map_of_eq_None_iff split: option.splits)

lemma insert_some_path:
  "insert_qs_variable ''/some_path'' ''__logins'' (PInt 0) = Inr ''/some_path?__logins=0''"
  by code_simp

lemma insert_welcome_back:
  "insert_qs_variable ''/welcome_back'' ''__logins'' (PInt 2) = Inr ''/welcome_back?__logins=2''"
  by code_simp

lemma int_of_str_2: "int_of_str ''2'' = Inr 2"
  by code_simp

lemma parse_came_from_some_path:
  "parse_qsl ''came_from=%2Fsome_path'' True = [(''came_from'', ''/some_path'')]"
  by code_simp

lemma parse_logins_2: "parse_qsl ''__logins=2'' True = [(''__logins'', ''2'')]"
  by code_simp




section \<open>Properties of the query-string functions\<close>

text \<open>quote_plus, character by character\<close>

lemma space_not_safe: "CHR '' '' \<notin> set always_safe"
  by code_simp

lemma hexdig_upper_nth_cases:
  assumes "k < 16"
  shows "hexdig_upper ! k \<in> set ''0123456789ABCDEF''"
proof -
  have "length hexdig_upper = 16" by (simp add: hexdig_upper_def)
  with assms have "hexdig_upper ! k \<in> set hexdig_upper" by (intro nth_mem) simp
  then show ?thesis by (simp add: hexdig_upper_def)
qed

lemma of_char_div_16: "(of_char (c :: char) :: nat) div 16 < 16"
proof -
  have "(of_char c :: nat) < 256" by simp
  then show ?thesis by (simp add: less_mult_imp_div_less)
qed

lemma percent_hex_chars:
  "set (percent_hex c) \<subseteq> set ''%0123456789ABCDEF''"
proof -
  have "hexdig_upper ! (of_char c div 16) \<in> set ''0123456789ABCDEF''"
    by (rule hexdig_upper_nth_cases) (rule of_char_div_16)
  moreover have "hexdig_upper ! (of_char c mod 16) \<in> set ''0123456789ABCDEF''"
    by (rule hexdig_upper_nth_cases) simp
  ultimately show ?thesis by (auto simp: percent_hex_def)
qed

lemma space_not_in_percent_hex: "CHR '' '' \<notin> set (percent_hex c)"
  using percent_hex_chars [of c] by auto

lemma quoter_space: "c \<noteq> CHR '' '' \<Longrightarrow> quoter '' '' c = quoter [] c"
  by (simp add: quoter_def)

lemma quoter_space_self: "quoter '' '' (CHR '' '') = '' ''"
  by (simp add: quoter_def)

lemma space_not_in_quoter: "c \<noteq> CHR '' '' \<Longrightarrow> CHR '' '' \<notin> set (quoter [] c)"
  using space_not_safe space_not_in_percent_hex by (auto simp: quoter_def)

lemma replace_char_id: "a \<notin> set s \<Longrightarrow> replace_char a b s = s"
  by (induction s) (auto simp: replace_char_def)

lemma replace_quoter:
  "replace_char (CHR '' '') (CHR ''+'') (quoter '' '' c) = qp_char c"
proof (cases "c = CHR '' ''")
  case True
  then show ?thesis by (simp add: quoter_space_self qp_char_def replace_char_def)
next
  case False
  have "replace_char (CHR '' '') (CHR ''+'') (quoter [] c) = quoter [] c"
    using space_not_in_quoter [OF False] by (rule replace_char_id)
  with False show ?thesis by (simp add: quoter_space qp_char_def)
qed

lemma replace_char_concat:
  "replace_char a b (concat xss) = concat (map (replace_char a b) xss)"
  by (induction xss) (simp_all add: replace_char_def)

lemma quote_plus_chars: "quote_plus s = concat (map qp_char s)"
proof (cases "CHR '' '' \<in> set s")
  case True
  then show ?thesis
    by (simp add: quote_plus_def quote_def replace_char_concat replace_quoter comp_def)
next
  case False
  then have *: "map (quoter []) s = map qp_char s"
    by (induction s) (auto simp: qp_char_def)
  show ?thesis using False by (simp only: quote_plus_def quote_def * if_False)
qed

text \<open>unquote undoes quote_plus\<close>

lemma unquote_plain: "c \<noteq> CHR ''%'' \<Longrightarrow> unquote (c # s) = c # unquote s"
  by (cases s rule: unquote.cases) auto

lemma hexval_hexdig_all: "list_all (\<lambda>k. hexval (hexdig_upper ! k) = Some k) [0..<16]"
  by code_simp

lemma hexval_hexdig: "k < 16 \<Longrightarrow> hexval (hexdig_upper ! k) = Some k"
  using hexval_hexdig_all by (simp add: list_all_iff)

lemma unquote_percent_hex: "unquote (percent_hex c @ s) = c # unquote s"
proof -
  have h: "hexval (hexdig_upper ! (of_char c div 16)) = Some (of_char c div 16)"
    by (rule hexval_hexdig) (rule of_char_div_16)
  have l: "hexval (hexdig_upper ! (of_char c mod 16)) = Some (of_char c mod 16)"
    by (rule hexval_hexdig) simp
  have "char_of (16 * (of_char c div 16) + of_char c mod 16 :: nat) = c"
    by simp
  then show ?thesis by (simp add: percent_hex_def h l)
qed

lemma plus_not_in_percent_hex: "CHR ''+'' \<notin> set (percent_hex c)"
  using percent_hex_chars [of c] by auto

lemma plus_percent_not_safe:
  "CHR ''+'' \<notin> set always_safe" "CHR ''%'' \<notin> set always_safe"
  by code_simp+

lemma safe_chars_plain: "c \<in> set always_safe \<Longrightarrow> c \<noteq> CHR ''+'' \<and> c \<noteq> CHR ''%''"
  using plus_percent_not_safe by blast

lemma replace_char_append:
  "replace_char a b (s @ t) = replace_char a b s @ replace_char a b t"
  by (simp add: replace_char_def)

lemma qp_char_safe:
  "c \<noteq> CHR '' '' \<Longrightarrow> (of_char c :: nat) < 128 \<and> c \<in> set always_safe \<Longrightarrow> qp_char c = [c]"
  by (simp add: qp_char_def quoter_def)

lemma qp_char_unsafe:
  "c \<noteq> CHR '' '' \<Longrightarrow> \<not> ((of_char c :: nat) < 128 \<and> c \<in> set always_safe) \<Longrightarrow>
   qp_char c = percent_hex c"
  by (auto simp: qp_char_def quoter_def)

lemma decode_qp_char: "decode (qp_char c @ s) = c # decode s"
proof (cases "c = CHR '' ''")
  case True
  then show ?thesis by (simp add: decode_def qp_char_def replace_char_def unquote_plain)
next
  case False
  show ?thesis
  proof (cases "(of_char c :: nat) < 128 \<and> c \<in> set always_safe")
    case True
    with False safe_chars_plain [of c] show ?thesis
      by (simp add: decode_def qp_char_safe replace_char_def unquote_plain)
  next
    case no: False
    have "replace_char (CHR ''+'') (CHR '' '') (percent_hex c) = percent_hex c"
      using plus_not_in_percent_hex by (rule replace_char_id)
    then show ?thesis
      by (simp add: decode_def qp_char_unsafe [OF False no] replace_char_append unquote_percent_hex)
  qed
qed

lemma decode_quote_plus: "decode (quote_plus s) = s"
proof -
  have "decode (concat (map qp_char s)) = s"
  proof (induction s)
    case Nil
    then show ?case by (simp add: decode_def replace_char_def)
  next
    case (Cons c s)
    then show ?case by (simp add: decode_qp_char)
  qed
  then show ?thesis by (simp add: quote_plus_chars)
qed

lemma qp_char_set:
  assumes "x \<in> set (qp_char c)"
  shows "x = CHR ''+'' \<or> x \<in> set always_safe \<or> x \<in> set ''%0123456789ABCDEF''"
proof (cases "c = CHR '' ''")
  case True
  with assms have "x = CHR ''+''" by (simp add: qp_char_def)
  then show ?thesis by blast
next
  case False
  show ?thesis
  proof (cases "(of_char c :: nat) < 128 \<and> c \<in> set always_safe")
    case True
    with assms False have "x \<in> set always_safe" by (simp add: qp_char_safe)
    then show ?thesis by blast
  next
    case no: False
    from assms have "x \<in> set (percent_hex c)" by (simp add: qp_char_unsafe [OF False no])
    then have "x \<in> set ''%0123456789ABCDEF''" using percent_hex_chars [of c] by blast
    then show ?thesis by blast
  qed
qed

lemma quote_plus_set:
  "x \<in> set (quote_plus s) \<Longrightarrow>
   x = CHR ''+'' \<or> x \<in> set always_safe \<or> x \<in> set ''%0123456789ABCDEF''"
  unfolding quote_plus_chars using qp_char_set by fastforce

lemma delims_not_safe:
  "CHR ''&'' \<notin> set always_safe" "CHR '';'' \<notin> set always_safe" "CHR ''='' \<notin> set always_safe"
  by code_simp+

lemma quote_plus_no_delim:
  "CHR ''&'' \<notin> set (quote_plus s)" "CHR '';'' \<notin> set (quote_plus s)" "CHR ''='' \<notin> set (quote_plus s)"
  using quote_plus_set [of _ s] delims_not_safe by auto

lemma qp_char_nonempty: "qp_char c \<noteq> []"
  by (simp add: qp_char_def quoter_def percent_hex_def)

lemma quote_plus_empty_iff: "quote_plus s = [] \<longleftrightarrow> s = []"
  using qp_char_nonempty by (cases s) (auto simp: quote_plus_chars)

text \<open>splitting what was joined\<close>

lemma split_char_nonempty: "split_char c s \<noteq> []"
  by (induction s) (auto split: list.splits)

lemma split_char_no_sep: "c \<notin> set s \<Longrightarrow> split_char c s = [s]"
  by (induction s) auto

lemma split_char_append: "c \<notin> set a \<Longrightarrow> split_char c (a @ c # b) = a # split_char c b"
  by (induction a) auto

lemma split_char_join:
  "fs \<noteq> [] \<Longrightarrow> \<forall>f \<in> set fs. c \<notin> set f \<Longrightarrow> split_char c (join [c] fs) = fs"
proof (induction "[c]" fs rule: join.induct)
  case 1
  then show ?case by simp
next
  case (2 x)
  then show ?case by (simp add: split_char_no_sep)
next
  case (3 x y ys)
  then show ?case by (simp add: split_char_append)
qed

lemma str_find_append: "c \<notin> set a \<Longrightarrow> str_find c (a @ c # b) = Some (length a)"
  by (induction a) auto

lemma str_find_None: "c \<notin> set s \<Longrightarrow> str_find c s = None"
  by (induction s) auto

lemma split1_append: "c \<notin> set a \<Longrightarrow> split1 c (a @ c # b) = (a, Some b)"
  by (simp add: split1_def str_find_append)

lemma parse_field_encoded:
  "parse_field kb (quote_plus k @ CHR ''='' # quote_plus v) =
     (if v \<noteq> [] \<or> kb then [(k, v)] else [])"
  using decode_quote_plus [of k] decode_quote_plus [of v]
  by (simp add: parse_field_def split1_append quote_plus_no_delim quote_plus_empty_iff decode_def)

lemma urlencode_item_values:
  "urlencode_item (k, v) = map (\<lambda>x. quote_plus k @ ''='' @ quote_plus x) (item_values v)"
  by (cases v) (simp_all add: item_values_def)

lemma parse_qsl_empty: "parse_qsl [] kb = []"
  by (simp add: parse_qsl_def parse_field_def)

lemma field_no_amp: "CHR ''&'' \<notin> set (quote_plus k @ ''='' @ quote_plus x)"
  by (simp add: quote_plus_no_delim)

lemma field_no_semi: "CHR '';'' \<notin> set (quote_plus k @ ''='' @ quote_plus x)"
  by (simp add: quote_plus_no_delim)

lemma parse_qsl_join:
  assumes "\<forall>f \<in> set fs. CHR ''&'' \<notin> set f \<and> CHR '';'' \<notin> set f"
  shows "parse_qsl (join ''&'' fs) kb = concat (map (parse_field kb) fs)"
proof (cases "fs = []")
  case True
  then show ?thesis by (simp add: parse_qsl_empty)
next
  case False
  then have "split_char (CHR ''&'') (join ''&'' fs) = fs"
    using assms by (intro split_char_join) auto
  moreover have "concat (map (split_char (CHR '';'')) fs) = fs"
    using assms by (induction fs) (auto simp: split_char_no_sep)
  ultimately show ?thesis by (simp add: parse_qsl_def)
qed

lemma parse_fields_item:
  "concat (map (parse_field kb) (urlencode_item (k, v))) = decoded_item kb (k, v)"
proof -
  have "concat (map (parse_field kb) (map (\<lambda>x. quote_plus k @ ''='' @ quote_plus x) xs)) =
        map (Pair k) (filter (\<lambda>x. x \<noteq> [] \<or> kb) xs)" for xs
    by (induction xs) (simp_all add: parse_field_encoded)
  then show ?thesis by (simp add: urlencode_item_values decoded_item_def)
qed

lemma parse_qsl_urlencode:
  "parse_qsl (urlencode items) kb = concat (map (decoded_item kb) items)"
proof -
  have "\<forall>f \<in> set (concat (map urlencode_item items)). CHR ''&'' \<notin> set f \<and> CHR '';'' \<notin> set f"
    by (auto simp: urlencode_item_values quote_plus_no_delim)
  then have "parse_qsl (urlencode items) kb =
             concat (map (parse_field kb) (concat (map urlencode_item items)))"
    unfolding urlencode_def by (rule parse_qsl_join)
  also have "\<dots> = concat (map (decoded_item kb) items)"
    by (induction items) (auto simp: parse_fields_item)
  finally show ?thesis .
qed

lemma parse_qsl_multidict: "parse_qsl (urlencode (multidict_items d)) True = d"
  by (induction d) (auto simp: parse_qsl_urlencode multidict_items_def decoded_item_def item_values_def)

lemma map_of_dict_setitem: "map_of (dict_setitem k v d) = (map_of d)(k \<mapsto> v)"
  by (induction d) (auto simp: fun_eq_iff)

lemma keys_dict_setitem:
  "map fst (dict_setitem k v d) = (if k \<in> set (map fst d) then map fst d else map fst d @ [k])"
  by (induction d) force+

lemma distinct_dict_setitem:
  "distinct (map fst d) \<Longrightarrow> distinct (map fst (dict_setitem k v d))"
  by (simp only: keys_dict_setitem split: if_splits) simp

lemma distinct_parse_qs_step:
  "distinct (map fst d) \<Longrightarrow> distinct (map fst (parse_qs_step d nv))"
  by (simp add: parse_qs_step_def distinct_dict_setitem split: option.splits)

lemma map_of_parse_qs_step:
  "map_of (parse_qs_step d nv) =
     (map_of d)(fst nv \<mapsto> (case map_of d (fst nv) of None \<Rightarrow> [snd nv] | Some vs \<Rightarrow> vs @ [snd nv]))"
  by (simp add: parse_qs_step_def map_of_dict_setitem split: option.splits)

lemma distinct_foldl_parse_qs_step:
  "distinct (map fst d) \<Longrightarrow> distinct (map fst (foldl parse_qs_step d pairs))"
  by (induction pairs arbitrary: d) (simp_all add: distinct_parse_qs_step)

lemma map_of_foldl_parse_qs_step:
  "map_of (foldl parse_qs_step d pairs) k =
     (case map_of d k of
        None \<Rightarrow> some_values (group_values k pairs)
      | Some vs \<Rightarrow> Some (vs @ group_values k pairs))"
proof (induction pairs arbitrary: d)
  case Nil
  then show ?case by (simp add: group_values_def some_values_def split: option.splits)
next
  case (Cons nv pairs)
  show ?case
    by (simp add: Cons.IH map_of_parse_qs_step group_values_def some_values_def
        split: option.splits)
qed

lemma distinct_parse_qs: "distinct (map fst (parse_qs q))"
  by (simp add: parse_qs_def distinct_foldl_parse_qs_step)

lemma map_of_parse_qs:
  "map_of (parse_qs q) k = some_values (group_values k (parse_qsl q False))"
  by (simp add: parse_qs_def map_of_foldl_parse_qs_step)

text \<open>values parsed without blank values are never blank\<close>

lemma unquote_empty_iff: "unquote s = [] \<longleftrightarrow> s = []"
  by (induction s rule: unquote.induct) (auto split: option.splits)

lemma decode_empty_iff: "decode s = [] \<longleftrightarrow> s = []"
  by (simp add: decode_def unquote_empty_iff replace_char_def)

lemma parse_field_nonblank: "(k, v) \<in> set (parse_field False f) \<Longrightarrow> v \<noteq> []"
  using decode_empty_iff
  by (auto simp: parse_field_def decode_def split: prod.splits option.splits if_splits)

lemma parse_qsl_nonblank: "(k, v) \<in> set (parse_qsl q False) \<Longrightarrow> v \<noteq> []"
  by (auto simp: parse_qsl_def dest: parse_field_nonblank)

lemma group_values_nonblank: "[] \<notin> set (group_values k (parse_qsl q False))"
  using parse_qsl_nonblank by (fastforce simp: group_values_def)

lemma parse_qs_values:
  assumes "map_of (parse_qs q) k = Some vs"
  shows "vs \<noteq> [] \<and> [] \<notin> set vs"
  using assms group_values_nonblank [of k q]
  by (auto simp: map_of_parse_qs some_values_def split: if_splits)

text \<open>the values that a sorted dictionary gives back\<close>

lemma group_values_append:
  "group_values k (xs @ ys) = group_values k xs @ group_values k ys"
  by (simp add: group_values_def)

lemma group_values_decoded_item:
  "group_values k (decoded_item kb (k', v)) =
     (if k' = k then filter (\<lambda>x. x \<noteq> [] \<or> kb) (item_values v) else [])"
  by (auto simp: group_values_def decoded_item_def comp_def filter_map)

lemma group_values_decoded:
  "distinct (map fst items) \<Longrightarrow>
   group_values k (concat (map (decoded_item kb) items)) =
     (case map_of items k of
        None \<Rightarrow> []
      | Some v \<Rightarrow> filter (\<lambda>x. x \<noteq> [] \<or> kb) (item_values v))"
proof (induction items)
  case Nil
  then show ?case by (simp add: group_values_def)
next
  case (Cons p items)
  obtain k' v where p: "p = (k', v)" by (cases p)
  from Cons.prems p have notin: "map_of items k' = None"
    by (simp add: map_of_eq_None_iff)
  show ?case
  proof (cases "k' = k")
    case True
    with Cons p notin show ?thesis
      by (simp add: group_values_append group_values_decoded_item)
  next
    case False
    with Cons p show ?thesis
      by (simp add: group_values_append group_values_decoded_item)
  qed
qed

lemma map_of_dict_items:
  "distinct (map fst d) \<Longrightarrow> map_of (dict_items d) = map_of d"
proof -
  assume d: "distinct (map fst d)"
  have "distinct (map fst (sort_key fst d))"
    using d by (simp add: distinct_map)
  moreover have "set (sort_key fst d) = set d" by simp
  ultimately show ?thesis
    using d unfolding dict_items_def by (simp add: map_of_inject_set)
qed

lemma distinct_dict_items:
  "distinct (map fst d) \<Longrightarrow> distinct (map fst (dict_items d))"
  by (simp add: dict_items_def distinct_map)

lemma map_of_parse_qs_urlencode:
  assumes "distinct (map fst d)"
  shows "map_of (parse_qs (urlencode (dict_items d))) k =
     (case map_of d k of
        None \<Rightarrow> None
      | Some v \<Rightarrow> some_values (filter (\<lambda>x. x \<noteq> []) (item_values v)))"
  using assms
  by (simp add: map_of_parse_qs parse_qsl_urlencode group_values_decoded distinct_dict_items
      map_of_dict_items some_values_def split: option.splits)

lemma map_of_as_lists: "map_of (as_lists d) k = map_option PList (map_of d k)"
  by (induction d) (auto simp: as_lists_def)

lemma keys_as_lists: "map fst (as_lists d) = map fst d"
  by (induction d) (auto simp: as_lists_def)

lemma distinct_query_parts:
  "distinct (map fst (dict_setitem k v (as_lists (parse_qs q))))"
  by (simp add: distinct_dict_setitem keys_as_lists distinct_parse_qs)

text \<open>The query string that \<open>insert_qs_variable\<close> writes, read back.\<close>

lemma map_of_parse_qs_new_query:
  "map_of (parse_qs (new_query q k v)) =
     (map_of (parse_qs q))(k := some_values (filter (\<lambda>x. x \<noteq> []) (item_values v)))"
proof
  fix k'
  show "map_of (parse_qs (new_query q k v)) k' =
     ((map_of (parse_qs q))(k := some_values (filter (\<lambda>x. x \<noteq> []) (item_values v)))) k'"
  proof (cases "k' = k")
    case True
    then show ?thesis
      by (simp add: new_query_def map_of_parse_qs_urlencode [OF distinct_query_parts]
          map_of_dict_setitem)
  next
    case False
    show ?thesis
    proof (cases "map_of (parse_qs q) k'")
      case None
      with False show ?thesis
        by (simp add: new_query_def map_of_parse_qs_urlencode [OF distinct_query_parts]
            map_of_dict_setitem map_of_as_lists)
    next
      case (Some vs)
      from parse_qs_values [OF Some] have "filter (\<lambda>x. x \<noteq> []) vs = vs" "vs \<noteq> []"
        by (auto simp: filter_id_conv)
      with False Some show ?thesis
        by (simp add: new_query_def map_of_parse_qs_urlencode [OF distinct_query_parts]
            map_of_dict_setitem map_of_as_lists item_values_def some_values_def)
    qed
  qed
qed




text \<open>Two URLs that the helper does not rewrite idempotently.\<close>

lemma parse_slashes:
  "urlparse ''////'' =
     Inr \<lparr>scheme = [], netloc = [], path = ''//'', query = [], fragment = [], params = []\<rparr>"
  by code_simp



lemma insert_port_once:
  "insert_qs_variable ''A:80'' ''__logins'' (PInt 0) = Inr ''A:80?__logins=0''"
  by code_simp

lemma insert_port_twice:
  "insert_twice ''A:80'' ''__logins'' (PInt 0) = Inr ''a:80?__logins=0''"
  by code_simp

lemma insert_qs_variable_port_like:
  "port_like ''A:80'' \<and>
   insert_twice ''A:80'' ''__logins'' (PInt 0) \<noteq> insert_qs_variable ''A:80'' ''__logins'' (PInt 0)"
proof -
  have "port_like ''A:80''" by code_simp
  then show ?thesis by (simp add: insert_port_once insert_port_twice)
qed




text \<open>Inserting a referrer binds \<^verbatim>\<open>came_from\<close> to it and keeps every other parameter.\<close>

lemma new_query_referrer:
  "r \<noteq> [] \<Longrightarrow>
   map_of (parse_qs (new_query q ''came_from'' (PStr r))) = (map_of (parse_qs q))(''came_from'' \<mapsto> [r])"
  by (simp add: map_of_parse_qs_new_query item_values_def some_values_def)

lemma new_query_nonempty: "\<forall>xs. v \<noteq> PList xs \<Longrightarrow> new_query q k v \<noteq> []"
  unfolding new_query_def
  by (rule urlencode_nonempty [where k = k and v = v]) (simp_all add: dict_items_def dict_setitem_mem)




lemma parse_dict_querystring_eq:
  "parse_dict_querystring env =
     parse_qsl (case QUERY_STRING env of None \<Rightarrow> [] | Some s \<Rightarrow> s) True"
  by (auto simp: parse_dict_querystring_def Let_def parse_qsl_empty)

lemma multidict_delitem_absent: "\<not> multidict_contains (multidict_delitem d k) k"
  by (auto simp: multidict_contains_def multidict_delitem_def)

lemma identify_hides_counter:
  assumes "super_identify environ = (identity, env)"
      and "PATH_INFO env = Some path_info"
      and "path_info \<noteq> login_handler_path self"
      and "path_info = login_form_url self \<or>
           truthy (multidict_get (parse_dict_querystring env) (login_counter_name self))"
  shows "fst (identify super_identify self environ) = Inr identity \<and>
         (\<exists>n. repoze_who_logins (snd (identify super_identify self environ)) = Some (PInt n)) \<and>
         \<not> multidict_contains
              (parse_dict_querystring (snd (identify super_identify self environ)))
              (login_counter_name self)"
proof -
  obtain n where n: "get_logins self env True = Inr (PInt n)"
    using get_logins_total by blast
  note r = identify_form_branch [of super_identify environ identity env path_info self "PInt n",
      OF assms n]
  show ?thesis
  proof (cases "multidict_contains (parse_dict_querystring env) (login_counter_name self)")
    case True
    then show ?thesis
      by (simp add: r parse_dict_querystring_eq [of "_\<lparr>QUERY_STRING := _\<rparr>"] parse_qsl_multidict
          multidict_delitem_absent)
  next
    case False
    then show ?thesis by (simp add: r)
  qed
qed

lemma parse_blank_logins: "parse_qsl ''__logins='' True = [(''__logins'', [])]"
  by code_simp




section \<open>Properties of \<^verbatim>\<open>urlparse\<close> and \<^verbatim>\<open>urlunparse\<close>\<close>

subsection \<open>\<^verbatim>\<open>urlsplit\<close> as cuts at the first delimiter\<close>
















lemma bad_netloc_empty [simp]: "\<not> bad_netloc []"
  by (simp add: bad_netloc_def)







subsection \<open>The parameters of the last path segment\<close>












subsection \<open>\<^verbatim>\<open>urlsplit\<close> of a URL written by \<^verbatim>\<open>urlunsplit\<close>\<close>











lemma take_append_q:
  "i \<le> length B \<Longrightarrow> take i (B @ Y) = take i B"
  by simp

















subsection \<open>What the first parse guarantees\<close>














lemma before_cons_same [simp]: "before c (c # s) = []"
  by (simp add: before_def)

lemma before_Nil [simp]: "before c [] = []"
  by (simp add: before_def)







subsection \<open>The rewritten URL reads back\<close>

















section \<open>The claims\<close>

text \<open>
  C10. Constructing the plugin with the counter key name omitted, \<^verbatim>\<open>None\<close> or the empty
  string configures the key \<^verbatim>\<open>__logins\<close>; a non-empty string is kept as the key. (The
  keyword is typed as \<^verbatim>\<open>None\<close> or a string, so these are all the falsy values.)
\<close>

theorem init_login_counter_name:
  "(kwargs ''login_counter_name'' = None \<or> kwargs ''login_counter_name'' = Some None \<or>
    kwargs ''login_counter_name'' = Some (Some [])
      \<longrightarrow> login_counter_name (init form_url login_path logout_path rememberer kwargs) = ''__logins'') \<and>
   (\<forall>s. s \<noteq> [] \<longrightarrow> kwargs ''login_counter_name'' = Some (Some s)
      \<longrightarrow> login_counter_name (init form_url login_path logout_path rememberer kwargs) = s)"
  by (auto simp: init_def kwargs_pop_def Let_def)

theorem init_login_counter_name_witness:
  "login_counter_name (init ''/login'' ''/login_handler'' ''/logout_handler'' ''whatever''
      Map.empty) = ''__logins'' \<and>
   login_counter_name (init ''/login'' ''/login_handler'' ''/logout_handler'' ''whatever''
      [''login_counter_name'' \<mapsto> None]) = ''__logins'' \<and>
   login_counter_name (init ''/login'' ''/login_handler'' ''/logout_handler'' ''whatever''
      [''login_counter_name'' \<mapsto> Some []]) = ''__logins'' \<and>
   login_counter_name (init ''/login'' ''/login_handler'' ''/logout_handler'' ''whatever''
      [''login_counter_name'' \<mapsto> Some ''tries'']) = ''tries''"
  using init_login_counter_name [where kwargs = Map.empty]
    init_login_counter_name [where kwargs = "[''login_counter_name'' \<mapsto> None]"]
    init_login_counter_name [where kwargs = "[''login_counter_name'' \<mapsto> Some []]"]
    init_login_counter_name [where kwargs = "[''login_counter_name'' \<mapsto> Some ''tries'']"]
  by simp

text \<open>
  C9. When the path is not the logout-handler path and the context carries no
  login-attempt counter, the challenge hook returns the very challenge of the wrapped
  authenticator, so with every header it had, and leaves the context as the wrapped
  authenticator left it.
\<close>

theorem challenge_returns_base_challenge:
  assumes "super_challenge environ status app_headers forget_headers = (challenger, env)"
      and "PATH_INFO env = Some path_info"
      and "path_info \<noteq> logout_handler_path self"
      and "repoze_who_logins env = None"
  shows "challenge super_challenge self environ status app_headers forget_headers =
           (Inr (Base_challenge challenger), env)"
  using assms by (simp add: challenge_def)

theorem challenge_returns_base_challenge_witness:
  "challenge (challenge_at ''/login?came_from=http%3A%2F%2Fexample.org%2Fsomewhere'')
     (make_one None None None) (make_environ ''/somewhere'' [] [])
     ''401 Unauthorized'' [(''app'', ''1'')] [(''forget'', ''1'')] =
   (Inr (Base_challenge (Redirection
      [(''Location'', ''/login?came_from=http%3A%2F%2Fexample.org%2Fsomewhere''),
       (''forget'', ''1'')])),
    make_environ ''/somewhere'' [] [])"
  using challenge_returns_base_challenge
    [where super_challenge = "challenge_at ''/login?came_from=http%3A%2F%2Fexample.org%2Fsomewhere''"
       and environ = "make_environ ''/somewhere'' [] []" and status = "''401 Unauthorized''"
       and app_headers = "[(''app'', ''1'')]" and forget_headers = "[(''forget'', ''1'')]"
       and self = "make_one None None None" and path_info = "''/somewhere''"]
  by (simp add: challenge_at_def make_environ_def make_one_def init_def)







text \<open>
  C7. On the login-handler path, with no post-login URL, the counter key \<^verbatim>\<open>__logins\<close>
  absent from the query string and \<^verbatim>\<open>/some_path\<close> as the destination the pipeline chose,
  the identity hook replaces the pipeline's redirection by one to exactly
  \<^verbatim>\<open>/some_path?__logins=0\<close>.
\<close>

theorem identify_login_without_post_login:
  assumes "super_identify environ = (identity, env)"
      and "PATH_INFO env = Some (login_handler_path self)"
      and "if_truthy (post_login_url self) = None"
      and "login_counter_name self = ''__logins''"
      and "\<not> multidict_contains (parse_dict_querystring env) ''__logins''"
      and "repoze_who_application env = Some app"
      and "location app = Inr ''/some_path''"
  shows "identify super_identify self environ =
     (Inr identity,
      env\<lparr>repoze_who_application := Some (Redirection [(''location'', ''/some_path?__logins=0'')])\<rparr>)"
proof -
  have dest: "login_destination self env ''/some_path'' = Inr ''/some_path''"
    using assms(3) by (simp add: login_destination_def)
  have logins: "get_logins self env True = Inr (PInt 0)"
    using assms(4) assms(5) by (intro get_logins_zero) (simp add: multidict_get_absent)
  have new: "set_logins_in_url self ''/some_path'' (PInt 0) = Inr ''/some_path?__logins=0''"
    using assms(4) by (simp add: set_logins_in_url_def insert_some_path)
  show ?thesis
    using assms(1,2,6,7) dest logins new
    by (rule identify_login_branch) simp
qed

theorem identify_login_without_post_login_witness:
  "identify (choose_destination ''/some_path'') (make_one None None None)
     (make_environ ''/login_handler'' ''came_from=%2Fsome_path'' []) =
   (Inr (),
    (make_environ ''/login_handler'' ''came_from=%2Fsome_path'' [])
      \<lparr>repoze_who_application := Some (Redirection [(''location'', ''/some_path?__logins=0'')])\<rparr>)"
proof -
  let ?self = "make_one None None None"
  let ?environ = "make_environ ''/login_handler'' ''came_from=%2Fsome_path'' []"
  let ?app = "Redirection [(''location'', ''/some_path'')]"
  let ?env = "?environ\<lparr>repoze_who_application := Some ?app\<rparr>"
  have 1: "choose_destination ''/some_path'' ?environ = ((), ?env)"
    by (simp add: choose_destination_def)
  have 2: "PATH_INFO ?env = Some (login_handler_path ?self)"
    by (simp add: make_environ_def make_one_def init_def)
  have 3: "if_truthy (post_login_url ?self) = None"
    by (simp add: make_one_def init_def kwargs_pop_def if_truthy_def)
  have 4: "login_counter_name ?self = ''__logins''"
    by (simp add: make_one_def init_def kwargs_pop_def)
  have 5: "\<not> multidict_contains (parse_dict_querystring ?env) ''__logins''"
    by (simp add: make_environ_def parse_dict_querystring_def parse_came_from_some_path
        multidict_contains_def)
  have 6: "repoze_who_application ?env = Some ?app"
    by simp
  have 7: "location ?app = Inr ''/some_path''"
    by simp
  have "identify (choose_destination ''/some_path'') ?self ?environ =
     (Inr (), ?env\<lparr>repoze_who_application :=
                      Some (Redirection [(''location'', ''/some_path?__logins=0'')])\<rparr>)"
    using 1 2 3 4 5 6 7 by (rule identify_login_without_post_login)
  then show ?thesis by simp
qed

text \<open>
  C8. On the login-handler path, with the post-login URL \<^verbatim>\<open>/welcome_back\<close>, an empty
  script prefix, no referrer in the query string and the counter value \<^verbatim>\<open>2\<close> in it, the
  identity hook sets the pipeline's redirection to exactly \<^verbatim>\<open>/welcome_back?__logins=2\<close>.
\<close>

theorem identify_login_with_post_login:
  assumes "super_identify environ = (identity, env)"
      and "PATH_INFO env = Some (login_handler_path self)"
      and "post_login_url self = Some ''/welcome_back''"
      and "SCRIPT_NAME env = None \<or> SCRIPT_NAME env = Some []"
      and "login_counter_name self = ''__logins''"
      and "\<not> multidict_contains (parse_dict_querystring env) ''came_from''"
      and "multidict_get (parse_dict_querystring env) ''__logins'' = PStr ''2''"
      and "repoze_who_application env = Some app"
      and "location app = Inr destination0"
  shows "identify super_identify self environ =
     (Inr identity,
      env\<lparr>repoze_who_application := Some (Redirection [(''location'', ''/welcome_back?__logins=2'')])\<rparr>)"
proof -
  have full: "get_full_path ''/welcome_back'' env = ''/welcome_back''"
    using assms(4) by (auto simp: get_full_path_def startswith_def)
  have dest: "login_destination self env destination0 = Inr ''/welcome_back''"
    using assms(3) assms(6) by (simp add: login_destination_def if_truthy_def full)
  have logins: "get_logins self env True = Inr (PInt 2)"
    using assms(5) assms(7) by (simp add: get_logins_def int_of_str_2)
  have new: "set_logins_in_url self ''/welcome_back'' (PInt 2) = Inr ''/welcome_back?__logins=2''"
    using assms(5) by (simp add: set_logins_in_url_def insert_welcome_back)
  show ?thesis
    using assms(1,2,8,9) dest logins new
    by (rule identify_login_branch) simp
qed

theorem identify_login_with_post_login_witness:
  "identify (choose_destination ''/some_path'') (make_one None (Some ''/welcome_back'') None)
     (make_environ ''/login_handler'' ''__logins=2'' []) =
   (Inr (),
    (make_environ ''/login_handler'' ''__logins=2'' [])
      \<lparr>repoze_who_application := Some (Redirection [(''location'', ''/welcome_back?__logins=2'')])\<rparr>)"
proof -
  let ?self = "make_one None (Some ''/welcome_back'') None"
  let ?environ = "make_environ ''/login_handler'' ''__logins=2'' []"
  let ?app = "Redirection [(''location'', ''/some_path'')]"
  let ?env = "?environ\<lparr>repoze_who_application := Some ?app\<rparr>"
  have 1: "choose_destination ''/some_path'' ?environ = ((), ?env)"
    by (simp add: choose_destination_def)
  have 2: "PATH_INFO ?env = Some (login_handler_path ?self)"
    by (simp add: make_environ_def make_one_def init_def)
  have 3: "post_login_url ?self = Some ''/welcome_back''"
    by (simp add: make_one_def init_def kwargs_pop_def)
  have 4: "SCRIPT_NAME ?env = None \<or> SCRIPT_NAME ?env = Some []"
    by (simp add: make_environ_def)
  have 5: "login_counter_name ?self = ''__logins''"
    by (simp add: make_one_def init_def kwargs_pop_def)
  have 6: "\<not> multidict_contains (parse_dict_querystring ?env) ''came_from''"
    by (simp add: make_environ_def parse_dict_querystring_def parse_logins_2
        multidict_contains_def)
  have 7: "multidict_get (parse_dict_querystring ?env) ''__logins'' = PStr ''2''"
    by (simp add: make_environ_def parse_dict_querystring_def parse_logins_2
        multidict_get_def)
  have 8: "repoze_who_application ?env = Some ?app"
    by simp
  have 9: "location ?app = Inr ''/some_path''"
    by simp
  have "identify (choose_destination ''/some_path'') ?self ?environ =
     (Inr (), ?env\<lparr>repoze_who_application :=
                      Some (Redirection [(''location'', ''/welcome_back?__logins=2'')])\<rparr>)"
    using 1 2 3 4 5 6 7 8 9 by (rule identify_login_with_post_login)
  then show ?thesis by simp
qed



text \<open>
  C5. The claim asks that a counter key anywhere in the query string is parsed into the
  context and removed from the query string. The hook tests the counter's value for
  truth instead of the key's presence (\<^verbatim>\<open>or self._get_logins(environ)\<close>), so a counter
  key with a blank value on a page other than the login form is left alone: for the
  request \<^verbatim>\<open>/somewhere?__logins=\<close> the query string contains the key, the hook returns
  the context unchanged, the key is still in the query string and no counter is stored.
  (\<open>identify_hides_counter\<close> above is the claim for the cases the code covers.)
\<close>

theorem identify_blank_counter_not_hidden:
  "multidict_contains
     (parse_dict_querystring (make_environ ''/somewhere'' ''__logins='' [])) ''__logins'' \<and>
   identify keep_environ (make_one None None None) (make_environ ''/somewhere'' ''__logins='' []) =
     (Inr (), make_environ ''/somewhere'' ''__logins='' []) \<and>
   QUERY_STRING (snd (identify keep_environ (make_one None None None)
      (make_environ ''/somewhere'' ''__logins='' []))) = Some ''__logins='' \<and>
   repoze_who_logins (snd (identify keep_environ (make_one None None None)
      (make_environ ''/somewhere'' ''__logins='' []))) = None"
proof -
  let ?self = "make_one None None None"
  let ?env = "make_environ ''/somewhere'' ''__logins='' []"
  have qs: "parse_dict_querystring ?env = [(''__logins'', [])]"
    by (simp add: parse_dict_querystring_def make_environ_def parse_blank_logins)
  have name: "login_counter_name ?self = ''__logins''"
    by (simp add: make_one_def init_def kwargs_pop_def)
  have raw: "get_logins ?self ?env False = Inr (PStr [])"
    by (simp add: get_logins_def qs name multidict_get_def)
  have paths: "PATH_INFO ?env = Some ''/somewhere''" "''/somewhere'' \<noteq> login_handler_path ?self"
    "''/somewhere'' \<noteq> login_form_url ?self"
    by (simp_all add: make_environ_def make_one_def init_def)
  have run: "identify keep_environ ?self ?env = (Inr (), ?env)"
    using paths by (simp add: identify_def keep_environ_def raw)
  have "multidict_contains (parse_dict_querystring ?env) ''__logins''"
    by (simp add: qs multidict_contains_def)
  moreover have "QUERY_STRING ?env = Some ''__logins=''" "repoze_who_logins ?env = None"
    by (simp_all add: make_environ_def)
  ultimately show ?thesis by (simp add: run)
qed




end
